theory Spec2Isabelle
  imports Main "HOL-Library.Word" "HOL-Library.Sublist"
begin

unbundle bit_operations_syntax

text \<open>
  The file \<open>testing.py\<close> holds the four functions \<open>persistent_memory_logic_loop\<close>,
  \<open>PMLL\<close>, \<open>secure_data\<close> and \<open>verify_data\<close> and the global list they share.
  They are modelled here as they are defined. The statements around them
  (\<open>import pml\<close>, \<open>xml.init()\<close>, the unit tests and the window, which call
  \<open>PMLL()\<close> with no argument) do not fit these definitions, and are left out.
\<close>

section \<open>Values\<close>

text \<open>
  A Python \<open>str\<close> is a sequence of Unicode code points; each is a number below
  \<open>0x110000\<close>, and the surrogates \<open>0xD800..0xDFFF\<close> are allowed in a \<open>str\<close>
  (they are what cannot be encoded). A \<open>bytes\<close> object is a sequence of octets.
\<close>

type_synonym str = "nat list"
type_synonym byte = "8 word"

definition is_text :: "str \<Rightarrow> bool" where
  "is_text s = list_all (\<lambda>c. c < 0x110000) s"

text \<open>An ASCII literal of the source, as code points.\<close>

definition lit :: "string \<Rightarrow> str" where
  "lit s = map of_char s"

text \<open>
  An exception: the two that the module's own calls raise, and any other class, by
  name, that a method supplied by the caller raises.
\<close>

datatype error = AttributeError | UnicodeEncodeError | OtherException string

text \<open>
  The functions \<open>secure_data\<close> and \<open>verify_data\<close> carry no type annotations, so an
  argument is any Python value: a value of a built-in type, or an instance of a class
  that the caller wrote.

  \<open>PObj base eq\<close> is an instance of a class whose only method of its own is
  \<open>__eq__\<close>. \<open>base\<close> is the text of the instance when the class derives from
  \<open>str\<close>, and \<open>None\<close> when it does not. \<open>eq s\<close> is what \<open>__eq__\<close> does when the
  other operand is the \<open>str\<close> \<open>s\<close>: \<open>None\<close> when it returns \<open>NotImplemented\<close>,
  \<open>Some (Inl e)\<close> when it raises \<open>e\<close>, \<open>Some (Inr v)\<close> when it returns \<open>v\<close>.
\<close>

datatype pyval =
    PNone
  | PBool bool
  | PInt int
  | PStr str
  | PBytes "byte list"
  | PList "pyval list"
  | PObj "str option" "str \<Rightarrow> (error + pyval) option"


section \<open>\<open>str.encode()\<close>: UTF-8, strict\<close>

definition is_surrogate :: "nat \<Rightarrow> bool" where
  "is_surrogate c = (0xD800 \<le> c \<and> c \<le> 0xDFFF)"

definition utf8_char :: "nat \<Rightarrow> byte list" where
  "utf8_char c =
     (if c < 0x80 then [of_nat c]
      else if c < 0x800 then [of_nat (0xC0 + c div 64), of_nat (0x80 + c mod 64)]
      else if c < 0x10000 then
        [of_nat (0xE0 + c div 4096), of_nat (0x80 + (c div 64) mod 64), of_nat (0x80 + c mod 64)]
      else
        [of_nat (0xF0 + c div 262144), of_nat (0x80 + (c div 4096) mod 64),
         of_nat (0x80 + (c div 64) mod 64), of_nat (0x80 + c mod 64)])"

fun utf8_encode :: "str \<Rightarrow> error + byte list" where
  "utf8_encode [] = Inr []"
| "utf8_encode (c # cs) =
     (if is_surrogate c then Inl UnicodeEncodeError
      else (case utf8_encode cs of
              Inl e \<Rightarrow> Inl e
            | Inr bs \<Rightarrow> Inr (utf8_char c @ bs)))"

text \<open>
  \<open>data.encode()\<close>: only a \<open>str\<close> has the method, and an instance of a class
  derived from \<open>str\<close> inherits it.
\<close>

fun encode :: "pyval \<Rightarrow> error + byte list" where
  "encode (PStr s) = utf8_encode s"
| "encode (PObj (Some s) eq) = utf8_encode s"
| "encode _ = Inl AttributeError"

section \<open>\<open>hashlib.sha256\<close> (FIPS 180-4)\<close>

type_synonym w32 = "32 word"
type_synonym hstate = "w32 \<times> w32 \<times> w32 \<times> w32 \<times> w32 \<times> w32 \<times> w32 \<times> w32"

definition rotr :: "nat \<Rightarrow> w32 \<Rightarrow> w32" where
  "rotr n x = drop_bit n x OR push_bit (32 - n) x"

definition Ch :: "w32 \<Rightarrow> w32 \<Rightarrow> w32 \<Rightarrow> w32" where
  "Ch x y z = (x AND y) XOR (NOT x AND z)"

definition Maj :: "w32 \<Rightarrow> w32 \<Rightarrow> w32 \<Rightarrow> w32" where
  "Maj x y z = (x AND y) XOR (x AND z) XOR (y AND z)"

definition bsig0 :: "w32 \<Rightarrow> w32" where
  "bsig0 x = rotr 2 x XOR rotr 13 x XOR rotr 22 x"

definition bsig1 :: "w32 \<Rightarrow> w32" where
  "bsig1 x = rotr 6 x XOR rotr 11 x XOR rotr 25 x"

definition ssig0 :: "w32 \<Rightarrow> w32" where
  "ssig0 x = rotr 7 x XOR rotr 18 x XOR drop_bit 3 x"

definition ssig1 :: "w32 \<Rightarrow> w32" where
  "ssig1 x = rotr 17 x XOR rotr 19 x XOR drop_bit 10 x"

text \<open>
  The round constants of section 4.2.2 and the initial hash value of section 5.3.3,
  as decimal numerals.
\<close>

definition K :: "w32 list" where
  "K = [1116352408, 1899447441, 3049323471, 3921009573, 961987163, 1508970993,
        2453635748, 2870763221, 3624381080, 310598401, 607225278, 1426881987,
        1925078388, 2162078206, 2614888103, 3248222580, 3835390401, 4022224774,
        264347078, 604807628, 770255983, 1249150122, 1555081692, 1996064986,
        2554220882, 2821834349, 2952996808, 3210313671, 3336571891, 3584528711,
        113926993, 338241895, 666307205, 773529912, 1294757372, 1396182291,
        1695183700, 1986661051, 2177026350, 2456956037, 2730485921, 2820302411,
        3259730800, 3345764771, 3516065817, 3600352804, 4094571909, 275423344,
        430227734, 506948616, 659060556, 883997877, 958139571, 1322822218,
        1537002063, 1747873779, 1955562222, 2024104815, 2227730452, 2361852424,
        2428436474, 2756734187, 3204031479, 3329325298]"

definition H0 :: hstate where
  "H0 = (1779033703, 3144134277, 1013904242, 2773480762,
         1359893119, 2600822924, 528734635, 1541459225)"

text \<open>Padding: a 1 bit, zeros up to 56 modulo 64 octets, the length in bits on 64 bits.\<close>

definition be64 :: "64 word \<Rightarrow> byte list" where
  "be64 n = [ucast (drop_bit 56 n), ucast (drop_bit 48 n), ucast (drop_bit 40 n),
             ucast (drop_bit 32 n), ucast (drop_bit 24 n), ucast (drop_bit 16 n),
             ucast (drop_bit 8 n), ucast n]"

definition be32 :: "w32 \<Rightarrow> byte list" where
  "be32 w = [ucast (drop_bit 24 w), ucast (drop_bit 16 w), ucast (drop_bit 8 w), ucast w]"

definition pad :: "byte list \<Rightarrow> byte list" where
  "pad m = m @ [0x80] @ replicate ((119 - length m mod 64) mod 64) 0 @ be64 (of_nat (8 * length m))"

fun words_of :: "byte list \<Rightarrow> w32 list" where
  "words_of (a # b # c # d # bs) =
     (push_bit 24 (ucast a) OR push_bit 16 (ucast b) OR push_bit 8 (ucast c) OR ucast d) # words_of bs"
| "words_of _ = []"

fun blocks :: "w32 list \<Rightarrow> w32 list list" where
  "blocks ws = (if ws = [] then [] else take 16 ws # blocks (drop 16 ws))"

declare blocks.simps [simp del]

fun schedule :: "nat \<Rightarrow> w32 list \<Rightarrow> w32 list" where
  "schedule 0 w = w"
| "schedule (Suc n) w =
     (let t = length w
      in schedule n (w @ [ssig1 (w ! (t - 2)) + w ! (t - 7) + ssig0 (w ! (t - 15)) + w ! (t - 16)]))"

fun round :: "hstate \<Rightarrow> w32 \<times> w32 \<Rightarrow> hstate" where
  "round (a, b, c, d, e, f, g, h) (k, w) =
     (let t1 = h + bsig1 e + Ch e f g + k + w;
          t2 = bsig0 a + Maj a b c
      in (t1 + t2, a, b, c, d + t1, e, f, g))"

fun add_state :: "hstate \<Rightarrow> hstate \<Rightarrow> hstate" where
  "add_state (a, b, c, d, e, f, g, h) (a', b', c', d', e', f', g', h') =
     (a + a', b + b', c + c', d + d', e + e', f + f', g + g', h + h')"

definition compress :: "hstate \<Rightarrow> w32 list \<Rightarrow> hstate" where
  "compress H blk = add_state H (foldl round H (zip K (schedule 48 blk)))"

fun digest_bytes :: "hstate \<Rightarrow> byte list" where
  "digest_bytes (a, b, c, d, e, f, g, h) =
     be32 a @ be32 b @ be32 c @ be32 d @ be32 e @ be32 f @ be32 g @ be32 h"

definition sha256 :: "byte list \<Rightarrow> byte list" where
  "sha256 m = digest_bytes (foldl compress H0 (blocks (words_of (pad m))))"

text \<open>\<open>hexdigest()\<close>: two lower-case hexadecimal digits for each octet.\<close>

definition hexdigit :: "nat \<Rightarrow> nat" where
  "hexdigit d = (if d < 10 then 48 + d else 87 + d)"

definition hex_of_byte :: "byte \<Rightarrow> str" where
  "hex_of_byte b = [hexdigit (unat b div 16), hexdigit (unat b mod 16)]"

definition hexdigest :: "byte list \<Rightarrow> str" where
  "hexdigest bs = concat (map hex_of_byte bs)"

section \<open>The integrity functions\<close>

text \<open>
  \<^verbatim>\<open>
  def secure_data(data):
      encrypted_data = hashlib.sha256(data.encode()).hexdigest()
      return encrypted_data
  \<close>
\<close>

definition secure_data :: "pyval \<Rightarrow> error + str" where
  "secure_data data =
     (case encode data of
        Inl e \<Rightarrow> Inl e
      | Inr bs \<Rightarrow> Inr (hexdigest (sha256 bs)))"

text \<open>
  Python's \<open>==\<close> with a \<open>str\<close> on the left. Against another \<open>str\<close> it compares
  the code points. Against a value of another built-in type both sides answer
  \<open>NotImplemented\<close> and the result is \<open>False\<close> (for \<open>bytes\<close>, under the
  interpreter's default warning settings). Against an instance of a caller's class the
  \<open>__eq__\<close> of that class decides: it is called first when the class derives from
  \<open>str\<close>, and after \<open>str\<close> has answered \<open>NotImplemented\<close> when it does not; what
  it returns is the value of the comparison, whatever its type, and what it raises is
  raised. Where it answers \<open>NotImplemented\<close> too, an instance of a class derived from
  \<open>str\<close> is compared by its text and any other instance is unequal.
\<close>

fun str_eq :: "str \<Rightarrow> pyval \<Rightarrow> error + pyval" where
  "str_eq s (PStr t) = Inr (PBool (s = t))"
| "str_eq s (PObj base eq) =
     (case eq s of
        Some r \<Rightarrow> r
      | None \<Rightarrow> Inr (PBool (base = Some s)))"
| "str_eq s _ = Inr (PBool False)"

text \<open>
  \<^verbatim>\<open>
  def verify_data(data, signature):
      verified = hashlib.sha256(data.encode()).hexdigest() == signature
      return verified
  \<close>
\<close>

definition verify_data :: "pyval \<Rightarrow> pyval \<Rightarrow> error + pyval" where
  "verify_data data signature =
     (case encode data of
        Inl e \<Rightarrow> Inl e
      | Inr bs \<Rightarrow> str_eq (hexdigest (sha256 bs)) signature)"

text \<open>
  The expression \<open>verify_data(x, secure_data(x))\<close>: Python evaluates the argument
  first, and an exception raised there is the outcome of the whole expression.
\<close>

definition verify_fresh :: "str \<Rightarrow> error + pyval" where
  "verify_fresh x =
     (case secure_data (PStr x) of
        Inl e \<Rightarrow> Inl e
      | Inr f \<Rightarrow> verify_data (PStr x) (PStr f))"

text \<open>A text that UTF-8 can represent: no surrogate code point in it.\<close>

definition encodable :: "str \<Rightarrow> bool" where
  "encodable x = list_all (\<lambda>c. \<not> is_surrogate c) x"

definition is_hex :: "nat \<Rightarrow> bool" where
  "is_hex c = ((48 \<le> c \<and> c \<le> 57) \<or> (97 \<le> c \<and> c \<le> 102))"

section \<open>The context log\<close>

text \<open>
  The module's state is the global list \<open>GLOBAL_PERSISTENT_CONTEXT\<close>, empty when the
  module is loaded. What the program writes to standard output is kept beside it: one
  entry for each call of \<open>print\<close>, holding the arguments printed. The stream is taken
  to be one that can write every character (a UTF-8 stream), so that \<open>print\<close>
  itself does not raise.
\<close>

record state =
  GLOBAL_PERSISTENT_CONTEXT :: "str list"
  stdout :: "pyval list list"

definition init :: state where
  "init = \<lparr>GLOBAL_PERSISTENT_CONTEXT = [], stdout = []\<rparr>"

text \<open>
  \<^verbatim>\<open>
  def persistent_memory_logic_loop(input_data: str) -> str:
      return f"PMLL processed: {input_data}"
  \<close>
\<close>

definition persistent_memory_logic_loop :: "str \<Rightarrow> str" where
  "persistent_memory_logic_loop input_data = lit ''PMLL processed: '' @ input_data"

text \<open>The first argument of the \<open>print\<close> in \<open>PMLL\<close>; it starts with U+1F680.\<close>

definition context_banner :: str where
  "context_banner = 0x1F680 # lit '' ~ Current in-memory context:''"

text \<open>
  \<^verbatim>\<open>
  def PMLL(input_data: str) -> str:
      GLOBAL_PERSISTENT_CONTEXT.append(input_data)
      print("... ~ Current in-memory context:", GLOBAL_PERSISTENT_CONTEXT)
      return persistent_memory_logic_loop(input_data)
  \<close>
\<close>

definition PMLL :: "str \<Rightarrow> state \<Rightarrow> str \<times> state" where
  "PMLL input_data s =
     (let s1 = s\<lparr>GLOBAL_PERSISTENT_CONTEXT := GLOBAL_PERSISTENT_CONTEXT s @ [input_data]\<rparr>;
          s2 = s1\<lparr>stdout := stdout s1 @
                 [[PStr context_banner, PList (map PStr (GLOBAL_PERSISTENT_CONTEXT s1))]]\<rparr>
      in (persistent_memory_logic_loop input_data, s2))"

text \<open>A run of \<open>PMLL\<close> calls, one for each input, from left to right.\<close>

definition record_all :: "str list \<Rightarrow> state \<Rightarrow> state" where
  "record_all xs s = foldl (\<lambda>s x. snd (PMLL x s)) s xs"

subsection \<open>Callers\<close>

text \<open>
  A caller invokes the functions of the module in any order. An exception a call raises
  is an outcome the caller sees; the module's state is what the call left.
\<close>

datatype call = CallPMLL str | CallSecure pyval | CallVerify pyval pyval

datatype outcome = Returned pyval | Raised error

fun exec :: "call \<Rightarrow> state \<Rightarrow> outcome \<times> state" where
  "exec (CallPMLL x) s = (Returned (PStr (fst (PMLL x s))), snd (PMLL x s))"
| "exec (CallSecure d) s =
     ((case secure_data d of Inl e \<Rightarrow> Raised e | Inr f \<Rightarrow> Returned (PStr f)), s)"
| "exec (CallVerify d g) s =
     ((case verify_data d g of Inl e \<Rightarrow> Raised e | Inr v \<Rightarrow> Returned v), s)"

definition run :: "call list \<Rightarrow> state \<Rightarrow> state" where
  "run cs s = foldl (\<lambda>s c. snd (exec c s)) s cs"

subsection \<open>Signatures with a comparison of their own\<close>




section \<open>A known answer\<close>

text \<open>
  The one-block message \<open>abc\<close> of the standard's example: its padded block and the
  64 words of its message schedule.
\<close>

definition abc_block :: "w32 list" where
  "abc_block =
    [1633837952, 0, 0, 0, 0, 0,
     0, 0, 0, 0, 0, 0,
     0, 0, 0, 24]"

definition abc_schedule :: "w32 list" where
  "abc_schedule =
    [1633837952, 0, 0, 0, 0, 0,
     0, 0, 0, 0, 0, 0,
     0, 0, 0, 24, 1633837952, 983040,
     2108187653, 1610613702, 1050508152, 25426944, 316456923, 3806512014,
     3357629466, 3073800610, 3854317833, 845560923, 2636160359, 3968280267,
     1881225380, 3552024379, 2482346367, 996719219, 2952069057, 4043988066,
     176896406, 1924104970, 2483675966, 610538786, 2672279444, 4037431130,
     1042573945, 657669027, 206005234, 2215296807, 2049510749, 106709978,
     4215179723, 3430291419, 3118885940, 2845390439, 2226839261, 3256115900,
     344409900, 2987358873, 4015503821, 3957764664, 2682456414, 2025622859,
     2755645205, 1720397816, 4004225740, 313650667]"

section \<open>Encoding and digest format\<close>

lemma utf8_encode_cases:
  "utf8_encode x =
     (if encodable x then Inr (concat (map utf8_char x)) else Inl UnicodeEncodeError)"
  by (induction x) (auto simp: encodable_def)

lemma length_be32: "length (be32 w) = 4"
  by (simp add: be32_def)

lemma length_sha256: "length (sha256 m) = 32"
proof -
  obtain a b c d e f g h
    where "foldl compress H0 (blocks (words_of (pad m))) = (a, b, c, d, e, f, g, h)"
    by (metis prod_cases3)
  then show ?thesis by (simp add: sha256_def length_be32)
qed

lemma length_hexdigest: "length (hexdigest bs) = 2 * length bs"
  by (induction bs) (simp_all add: hexdigest_def hex_of_byte_def)

lemma is_hex_hexdigit: "d < 16 \<Longrightarrow> is_hex (hexdigit d)"
  by (auto simp: is_hex_def hexdigit_def)

lemma unat_byte_div: "unat (b :: byte) div 16 < 16"
proof -
  have "unat b < 2 ^ 8" using unsigned_less [of b] by simp
  then show ?thesis by simp
qed

lemma hex_hexdigest: "list_all is_hex (hexdigest bs)"
  by (induction bs)
     (simp_all add: hexdigest_def hex_of_byte_def is_hex_hexdigit unat_byte_div)

lemma secure_data_str:
  "secure_data (PStr x) =
     (if encodable x then Inr (hexdigest (sha256 (concat (map utf8_char x))))
      else Inl UnicodeEncodeError)"
  by (simp add: secure_data_def utf8_encode_cases)

lemma verify_data_str:
  "verify_data (PStr x) g =
     (if encodable x then str_eq (hexdigest (sha256 (concat (map utf8_char x)))) g
      else Inl UnicodeEncodeError)"
  by (simp add: verify_data_def utf8_encode_cases)


lemma encodable_abc: "encodable (lit ''abc'')"
  by (simp add: encodable_def lit_def is_surrogate_def)

lemma surrogate_text: "is_text [0xD800] \<and> \<not> encodable [0xD800]"
  by (simp add: is_text_def encodable_def is_surrogate_def)

section \<open>The digest of \<open>abc\<close>\<close>

text \<open>
  The model computes the digest that the standard, and \<open>hashlib\<close>, give for
  \<open>abc\<close>; each stage is evaluated on its own.
\<close>

lemma encode_abc: "utf8_encode (lit ''abc'') = Inr [97, 98, 99]"
  by (simp add: lit_def is_surrogate_def utf8_char_def)

lemma blocks_abc: "blocks (words_of (pad [97, 98, 99])) = [abc_block]"
  by code_simp

lemma schedule_abc: "schedule 48 abc_block = abc_schedule"
  by code_simp

lemma rounds_abc:
  "foldl round H0 (zip K abc_schedule) =
     (1349398616, 3550093669, 80891244, 3093179625, 1593118500, 4212265488, 2492278198, 2518632596)"
  by code_simp

lemma compress_abc:
  "compress H0 abc_block =
     (3128432319, 2399260650, 1094795486, 1571693091, 2953011619, 2518121116, 3021012833, 4060091821)"
  by (simp add: compress_def schedule_abc rounds_abc) (simp add: H0_def)

lemma sha256_abc:
  "sha256 [97, 98, 99] =
     [186, 120, 22, 191, 143, 1, 207, 234, 65, 65, 64, 222, 93, 174, 34, 35,
      176, 3, 97, 163, 150, 23, 122, 156, 180, 16, 255, 97, 242, 0, 21, 173]"
  by (simp add: sha256_def blocks_abc compress_abc be32_def)

lemma hexdigest_abc:
  "hexdigest [186, 120, 22, 191, 143, 1, 207, 234, 65, 65, 64, 222, 93, 174, 34, 35,
      176, 3, 97, 163, 150, 23, 122, 156, 180, 16, 255, 97, 242, 0, 21, 173]
   = lit ''ba7816bf8f01cfea414140de5dae2223b00361a396177a9cb410ff61f20015ad''"
  by (simp add: hexdigest_def hex_of_byte_def hexdigit_def lit_def)

lemma secure_data_abc:
  "secure_data (PStr (lit ''abc'')) =
     Inr (lit ''ba7816bf8f01cfea414140de5dae2223b00361a396177a9cb410ff61f20015ad'')"
  by (simp add: secure_data_def encode_abc sha256_abc hexdigest_abc)

section \<open>Growth of the log\<close>

lemma context_PMLL:
  "GLOBAL_PERSISTENT_CONTEXT (snd (PMLL x s)) = GLOBAL_PERSISTENT_CONTEXT s @ [x]"
  by (simp add: PMLL_def Let_def)

lemma response_PMLL: "fst (PMLL x s) = persistent_memory_logic_loop x"
  by (simp add: PMLL_def Let_def)

lemma context_record_all:
  "GLOBAL_PERSISTENT_CONTEXT (record_all xs s) = GLOBAL_PERSISTENT_CONTEXT s @ xs"
  unfolding record_all_def
  by (induction xs arbitrary: s) (simp_all add: context_PMLL)

lemma context_exec:
  "prefix (GLOBAL_PERSISTENT_CONTEXT s) (GLOBAL_PERSISTENT_CONTEXT (snd (exec c s)))"
  by (cases c) (simp_all add: context_PMLL)

lemma context_run:
  "prefix (GLOBAL_PERSISTENT_CONTEXT s) (GLOBAL_PERSISTENT_CONTEXT (run cs s))"
  unfolding run_def
proof (induction cs arbitrary: s)
  case Nil
  show ?case by simp
next
  case (Cons c cs)
  have "prefix (GLOBAL_PERSISTENT_CONTEXT s) (GLOBAL_PERSISTENT_CONTEXT (snd (exec c s)))"
    by (rule context_exec)
  also have "prefix \<dots>
      (GLOBAL_PERSISTENT_CONTEXT (foldl (\<lambda>s c. snd (exec c s)) (snd (exec c s)) cs))"
    by (rule Cons.IH)
  finally show ?case by simp
qed

section \<open>The claims\<close>

text \<open>
  C1, as amended. For every text \<open>x\<close> that UTF-8 can encode (no surrogate code point),
  verifying \<open>x\<close> against its own freshly computed fingerprint returns true. As stated
  for every text, the claim fails: on a text holding a lone surrogate the fingerprint is
  never computed, \<open>encode\<close> raises \<open>UnicodeEncodeError\<close>.
\<close>

theorem verify_fresh_encodable:
  "encodable x \<Longrightarrow> verify_fresh x = Inr (PBool True)"
  by (simp add: verify_fresh_def secure_data_str verify_data_str)

theorem verify_fresh_encodable_witness:
  "encodable (lit ''abc'') \<and> verify_fresh (lit ''abc'') = Inr (PBool True)"
  using verify_fresh_encodable [of "lit ''abc''"] encodable_abc by simp

theorem verify_fresh_surrogate:
  "is_text [0xD800] \<and> verify_fresh [0xD800] = Inl UnicodeEncodeError
     \<and> verify_fresh [0xD800] \<noteq> Inr (PBool True)"
  using surrogate_text by (simp add: verify_fresh_def secure_data_str)




text \<open>
  C3. After \<open>PMLL\<close> has been called on \<open>a, b, ..., n\<close> in turn from the empty log, the
  log is exactly \<open>[a, b, ..., n]\<close>, its length is the number of calls, and a repeated
  input is kept twice.
\<close>

theorem context_after_calls:
  "GLOBAL_PERSISTENT_CONTEXT (record_all xs init) = xs
     \<and> length (GLOBAL_PERSISTENT_CONTEXT (record_all xs init)) = length xs
     \<and> GLOBAL_PERSISTENT_CONTEXT (record_all [x, x] init) = [x, x]
     \<and> GLOBAL_PERSISTENT_CONTEXT (record_all [lit ''a'', lit ''b'', lit ''a''] init)
         = [lit ''a'', lit ''b'', lit ''a'']"
  by (simp add: context_record_all init_def)

text \<open>
  C4. A call of \<open>PMLL\<close> changes the log by appending its input: the length grows by
  one and every earlier entry keeps its position; and whatever calls are made on the
  module, the log before them is a prefix of the log after them.
\<close>

theorem log_only_grows:
  "GLOBAL_PERSISTENT_CONTEXT (snd (PMLL x s)) = GLOBAL_PERSISTENT_CONTEXT s @ [x]
     \<and> length (GLOBAL_PERSISTENT_CONTEXT (snd (PMLL x s)))
         = Suc (length (GLOBAL_PERSISTENT_CONTEXT s))
     \<and> (\<forall>i < length (GLOBAL_PERSISTENT_CONTEXT s).
           GLOBAL_PERSISTENT_CONTEXT (snd (PMLL x s)) ! i = GLOBAL_PERSISTENT_CONTEXT s ! i)
     \<and> prefix (GLOBAL_PERSISTENT_CONTEXT s) (GLOBAL_PERSISTENT_CONTEXT (run cs s))"
  by (simp add: context_PMLL context_run nth_append)

theorem log_only_grows_witness:
  "(0::nat) < length (GLOBAL_PERSISTENT_CONTEXT \<lparr>GLOBAL_PERSISTENT_CONTEXT = [lit ''a''], stdout = []\<rparr>)
     \<and> GLOBAL_PERSISTENT_CONTEXT
          (snd (PMLL (lit ''b'') \<lparr>GLOBAL_PERSISTENT_CONTEXT = [lit ''a''], stdout = []\<rparr>)) ! 0
         = lit ''a''"
  using log_only_grows [of "lit ''b''" "\<lparr>GLOBAL_PERSISTENT_CONTEXT = [lit ''a''], stdout = []\<rparr>" "[]"]
  by simp

text \<open>
  C5. \<open>secure_data\<close> reads and writes no state: called on the same argument after any
  two histories of calls it gives the same outcome, and it leaves the state as it was.
\<close>

theorem secure_data_deterministic:
  "fst (exec (CallSecure d) s) = fst (exec (CallSecure d) s')
     \<and> fst (exec (CallSecure d) (run cs init)) = fst (exec (CallSecure d) (run cs' init))
     \<and> snd (exec (CallSecure d) s) = s"
  by simp

text \<open>
  C6. Every fingerprint \<open>secure_data\<close> returns is a string of 64 characters, each a
  digit or a letter from \<open>a\<close> to \<open>f\<close>; and it returns one for every encodable text.
\<close>

theorem secure_data_format:
  "(\<forall>f. secure_data d = Inr f \<longrightarrow> length f = 64 \<and> list_all is_hex f)
     \<and> (encodable x \<longrightarrow> (\<exists>f. secure_data (PStr x) = Inr f))"
proof (intro conjI allI impI)
  fix f
  assume "secure_data d = Inr f"
  then obtain bs where f: "f = hexdigest (sha256 bs)"
    by (auto simp: secure_data_def split: sum.splits)
  show "length f = 64"
    by (simp add: f length_hexdigest length_sha256)
  show "list_all is_hex f"
    by (simp add: f hex_hexdigest)
next
  assume "encodable x"
  then show "\<exists>f. secure_data (PStr x) = Inr f"
    by (simp add: secure_data_str)
qed

theorem secure_data_format_witness:
  "encodable (lit ''abc'')
     \<and> secure_data (PStr (lit ''abc''))
         = Inr (lit ''ba7816bf8f01cfea414140de5dae2223b00361a396177a9cb410ff61f20015ad'')
     \<and> length (lit ''ba7816bf8f01cfea414140de5dae2223b00361a396177a9cb410ff61f20015ad'') = 64
     \<and> list_all is_hex (lit ''ba7816bf8f01cfea414140de5dae2223b00361a396177a9cb410ff61f20015ad'')"
  using secure_data_format [of "PStr (lit ''abc'')" "lit ''abc''"] encodable_abc secure_data_abc
  by simp

text \<open>
  C7. The response of \<open>PMLL\<close> contains the input as a contiguous substring and is the
  same in every state; for the input of the module's own test run it is the text
  \<open>PMLL processed: Hello, Persistent World!\<close>, and the log then holds that input alone.
\<close>

theorem response_contains_input:
  "sublist x (fst (PMLL x s))
     \<and> fst (PMLL x s) = fst (PMLL x s')
     \<and> fst (PMLL (lit ''Hello, Persistent World!'') init)
         = lit ''PMLL processed: Hello, Persistent World!''
     \<and> sublist (lit ''Hello, Persistent World!'')
         (lit ''PMLL processed: Hello, Persistent World!'')
     \<and> GLOBAL_PERSISTENT_CONTEXT (snd (PMLL (lit ''Hello, Persistent World!'') init))
         = [lit ''Hello, Persistent World!'']"
proof -
  have a: "sublist y (persistent_memory_logic_loop y)" for y
    unfolding persistent_memory_logic_loop_def sublist_def
    by (rule exI [of _ "lit ''PMLL processed: ''"], rule exI [of _ "[]"]) simp
  have b: "persistent_memory_logic_loop (lit ''Hello, Persistent World!'')
             = lit ''PMLL processed: Hello, Persistent World!''"
    by (simp add: persistent_memory_logic_loop_def lit_def)
  show ?thesis
    using a [of x] a [of "lit ''Hello, Persistent World!''"] b
    by (simp add: response_PMLL context_PMLL init_def)
qed

text \<open>
  C8, as amended. A call of \<open>PMLL\<close> appends its input to the log, prints one line to
  standard output (the banner and the log as it now stands), and returns; it has no other
  effect. As stated, with no input or output during the call, the claim fails: the call
  prints.
\<close>

theorem PMLL_effects:
  "snd (PMLL x s) =
     s\<lparr>GLOBAL_PERSISTENT_CONTEXT := GLOBAL_PERSISTENT_CONTEXT s @ [x],
       stdout := stdout s @
         [[PStr context_banner, PList (map PStr (GLOBAL_PERSISTENT_CONTEXT s @ [x]))]]\<rparr>"
  by (simp add: PMLL_def Let_def)

theorem PMLL_prints:
  "stdout init = []
     \<and> stdout (snd (PMLL (lit ''x'') init)) = [[PStr context_banner, PList [PStr (lit ''x'')]]]
     \<and> stdout (snd (PMLL (lit ''x'') init)) \<noteq> stdout init"
  by (simp add: PMLL_def Let_def init_def)

text \<open>
  C9. On a text that UTF-8 cannot encode, \<open>secure_data\<close> raises \<open>UnicodeEncodeError\<close>
  and returns no fingerprint; on every text that it can encode, \<open>secure_data\<close> returns
  the digest of exactly the UTF-8 octets of the text.
\<close>

theorem secure_data_total_on_encodable:
  "(encodable x \<longrightarrow>
      secure_data (PStr x) = Inr (hexdigest (sha256 (concat (map utf8_char x)))))
     \<and> (\<not> encodable x \<longrightarrow> secure_data (PStr x) = Inl UnicodeEncodeError)"
  by (simp add: secure_data_str)

theorem secure_data_total_on_encodable_witness:
  "encodable (lit ''abc'')
     \<and> secure_data (PStr (lit ''abc''))
         = Inr (hexdigest (sha256 (concat (map utf8_char (lit ''abc'')))))
     \<and> \<not> encodable [0xD800]
     \<and> secure_data (PStr [0xD800]) = Inl UnicodeEncodeError"
  using secure_data_total_on_encodable [of "lit ''abc''"]
    secure_data_total_on_encodable [of "[0xD800]"] encodable_abc surrogate_text
  by simp

text \<open>
  C10. In every state, the response of \<open>PMLL\<close> to \<open>x\<close> is the text \<open>PMLL processed: \<close>
  followed by \<open>x\<close> unchanged; what was logged before does not enter it.
\<close>

theorem response_exact:
  "fst (PMLL x s) = lit ''PMLL processed: '' @ x
     \<and> fst (PMLL x (record_all xs init)) = fst (PMLL x init)"
  by (simp add: response_PMLL persistent_memory_logic_loop_def)

end
